theory Spec2Isabelle
  imports Main
begin

section \<open>Python values handled by the handler\<close>

text \<open>
  The handler of \<^verbatim>\<open>kowalski_filter.py\<close> moves JSON between a request body, two
  database tables and the remote Kowalski API. A JSON document decoded by Python is
  \<^verbatim>\<open>None\<close>, a \<^verbatim>\<open>bool\<close>, an \<^verbatim>\<open>int\<close>, a \<^verbatim>\<open>float\<close>, a \<^verbatim>\<open>str\<close>,
  a \<^verbatim>\<open>list\<close> or a \<^verbatim>\<open>dict\<close> with string keys. A float is kept as sign, mantissa
  and exponent, or as one of the special values; only its truth value is used.
  A dict is an association list in insertion order whose first entry for a key is the
  entry of the dict.
\<close>

datatype pyfloat = Finite bool nat int | Infinity bool | NaN

datatype json =
    JNull
  | JBool bool
  | JInt int
  | JFloat pyfloat
  | JStr string
  | JList "json list"
  | JObj "(string \<times> json) list"

type_synonym pydict = "(string \<times> json) list"

text \<open>The exceptions that can leave a handler: those Python raises on a bad attribute,
  key or subscript, and whatever the remote client \<^verbatim>\<open>kowalski.api\<close> raises.\<close>

datatype fault =
    AttributeError
  | KeyError string
  | TypeError
  | RemoteException string

text \<open>Python's truth value of a decoded JSON value (\<^verbatim>\<open>not pipeline\<close>, \<^verbatim>\<open>bool(active)\<close>).\<close>

fun truthy :: "json \<Rightarrow> bool" where
  "truthy JNull = False"
| "truthy (JBool b) = b"
| "truthy (JInt i) = (i \<noteq> 0)"
| "truthy (JFloat (Finite s m e)) = (m \<noteq> 0)"
| "truthy (JFloat (Infinity s)) = True"
| "truthy (JFloat NaN) = True"
| "truthy (JStr s) = (s \<noteq> [])"
| "truthy (JList xs) = (xs \<noteq> [])"
| "truthy (JObj kvs) = (kvs \<noteq> [])"

text \<open>\<^verbatim>\<open>d.get(k, None)\<close> on a dict.\<close>

definition dict_get :: "pydict \<Rightarrow> string \<Rightarrow> json" where
  "dict_get d k = (case map_of d k of None \<Rightarrow> JNull | Some v \<Rightarrow> v)"

text \<open>\<^verbatim>\<open>response.get(k)\<close> on whatever the remote client returned: only a dict has
  the method.\<close>

definition response_get :: "json \<Rightarrow> string \<Rightarrow> fault + json" where
  "response_get response k =
     (case response of JObj d \<Rightarrow> Inr (dict_get d k) | _ \<Rightarrow> Inl AttributeError)"

text \<open>\<^verbatim>\<open>altdata[k]\<close> with a string key: a missing key of a dict is a KeyError, and a
  value that is not a dict does not take a string subscript.\<close>

definition subscript :: "json \<Rightarrow> string \<Rightarrow> fault + json" where
  "subscript v k =
     (case v of
        JObj d \<Rightarrow> (case map_of d k of None \<Rightarrow> Inl (KeyError k) | Some x \<Rightarrow> Inr x)
      | _ \<Rightarrow> Inl TypeError)"

text \<open>\<^verbatim>\<open>patch_data[k] = v\<close>: a present key keeps its place, a new key goes last.\<close>

fun dict_set :: "pydict \<Rightarrow> string \<Rightarrow> json \<Rightarrow> pydict" where
  "dict_set [] k v = [(k, v)]"
| "dict_set ((k', v') # d) k v =
     (if k' = k then (k, v) # d else (k', v') # dict_set d k v)"

text \<open>Decimal rendering of an integer, as the f-string \<^verbatim>\<open>f"api/filters/{filter_id}"\<close>
  and \<^verbatim>\<open>str\<close> produce it.\<close>

function str_nat :: "nat \<Rightarrow> string" where
  "str_nat n =
     (if n < 10 then [''0123456789'' ! n]
      else str_nat (n div 10) @ [''0123456789'' ! (n mod 10)])"
  by pat_completeness auto
termination
  by (relation "measure (\<lambda>n. n)") auto

declare str_nat.simps [simp del]

definition str_int :: "int \<Rightarrow> string" where
  "str_int i = (if i < 0 then CHR ''-'' # str_nat (nat (- i)) else str_nat (nat i))"

text \<open>\<^verbatim>\<open>str(v)\<close>. On a string it is the string, on \<^verbatim>\<open>None\<close>, a bool and an int it is
  written out; on a float, a list and a dict it is Python's \<^verbatim>\<open>repr\<close>, a builtin that
  is taken as the parameter \<open>repr\<close>.\<close>

definition py_str :: "(json \<Rightarrow> string) \<Rightarrow> json \<Rightarrow> string" where
  "py_str repr v =
     (case v of
        JStr s \<Rightarrow> s
      | JNull \<Rightarrow> ''None''
      | JBool b \<Rightarrow> (if b then ''True'' else ''False'')
      | JInt i \<Rightarrow> str_int i
      | _ \<Rightarrow> repr v)"

section \<open>The collaborators: database, caller, remote API\<close>

record Filter =
  Filter_id :: int
  Filter_group_id :: int
  Filter_stream_id :: int

record Stream =
  Stream_id :: int
  Stream_altdata :: json

record Group =
  Group_id :: int

text \<open>A call \<^verbatim>\<open>kowalski.api(method=..., endpoint=..., data=...)\<close>; \<open>req_data\<close> is
  \<open>None\<close> when the keyword is not passed.\<close>

record request =
  req_method :: string
  req_endpoint :: string
  req_data :: "json option"

text \<open>The remote client either raises or returns the decoded response.\<close>

datatype api_result = Raises string | Returns json

text \<open>What a handler runs against: the rows of the two tables in the order the
  database yields them, the accessible groups of \<^verbatim>\<open>self.current_user\<close>, the remote
  client, and Python's \<^verbatim>\<open>repr\<close>.\<close>

record env =
  filters :: "Filter list"
  streams :: "Stream list"
  accessible_groups :: "Group list"
  kowalski_api :: "request \<Rightarrow> api_result"
  py_repr :: "json \<Rightarrow> string"

text \<open>What a handler does last: \<^verbatim>\<open>self.success(data=d)\<close> is \<open>success (Some d)\<close>,
  \<^verbatim>\<open>self.success()\<close> is \<open>success None\<close>, and \<^verbatim>\<open>self.error(m)\<close> is \<open>error m\<close>.
  The message is a Python value: the remote message may be \<^verbatim>\<open>None\<close>.\<close>

datatype reply = success "json option" | error json

text \<open>A run of a handler: the remote calls issued, in order, and either the fault that
  left the handler or its reply.\<close>

type_synonym outcome = "request list \<times> (fault + reply)"

text \<open>The query
  \<^verbatim>\<open>DBSession().query(Filter).filter(Filter.id == filter_id,
     Filter.group_id.in_([g.id for g in self.current_user.accessible_groups])).first()\<close>.\<close>

definition query_filter :: "env \<Rightarrow> int \<Rightarrow> Filter option" where
  "query_filter e filter_id =
     find (\<lambda>f. Filter_id f = filter_id
              \<and> Filter_group_id f \<in> set (map Group_id (accessible_groups e)))
          (filters e)"

text \<open>\<^verbatim>\<open>DBSession().query(Stream).filter(Stream.id == f.stream_id).first()\<close>.\<close>

definition query_stream :: "env \<Rightarrow> int \<Rightarrow> Stream option" where
  "query_stream e sid = find (\<lambda>s. Stream_id s = sid) (streams e)"

text \<open>\<^verbatim>\<open>stream.altdata\<close>, where \<^verbatim>\<open>stream\<close> may be \<^verbatim>\<open>None\<close>.\<close>

definition altdata_of :: "Stream option \<Rightarrow> fault + json" where
  "altdata_of stream =
     (case stream of None \<Rightarrow> Inl AttributeError | Some s \<Rightarrow> Inr (Stream_altdata s))"

section \<open>The handler\<close>

text \<open>The end of \<^verbatim>\<open>get\<close>, \<^verbatim>\<open>post\<close> and \<^verbatim>\<open>patch\<close> (lines 79-85, 178-184, 276-282):
  read \<^verbatim>\<open>data\<close>, \<^verbatim>\<open>status\<close> and \<^verbatim>\<open>message\<close> off the response and answer.\<close>

definition relay :: "json \<Rightarrow> fault + reply" where
  "relay response =
     (case response_get response ''data'' of
        Inl x \<Rightarrow> Inl x
      | Inr data \<Rightarrow>
     (case response_get response ''status'' of
        Inl x \<Rightarrow> Inl x
      | Inr status \<Rightarrow>
     (case response_get response ''message'' of
        Inl x \<Rightarrow> Inl x
      | Inr message \<Rightarrow>
          if status = JStr ''success'' then Inr (success (Some data))
          else Inr (error message))))"

text \<open>The end of \<^verbatim>\<open>delete\<close> (lines 322-327): no \<^verbatim>\<open>data\<close> is read or passed on.\<close>

definition relay_bare :: "json \<Rightarrow> fault + reply" where
  "relay_bare response =
     (case response_get response ''status'' of
        Inl x \<Rightarrow> Inl x
      | Inr status \<Rightarrow>
     (case response_get response ''message'' of
        Inl x \<Rightarrow> Inl x
      | Inr message \<Rightarrow>
          if status = JStr ''success'' then Inr (success None)
          else Inr (error message)))"

text \<open>One call of the remote client, recorded, with its answer handed to \<open>k\<close>.\<close>

definition call_api :: "env \<Rightarrow> request \<Rightarrow> (json \<Rightarrow> fault + reply) \<Rightarrow> outcome" where
  "call_api e req k =
     (case kowalski_api e req of
        Raises x \<Rightarrow> ([req], Inl (RemoteException x))
      | Returns response \<Rightarrow> ([req], k response))"

definition get :: "env \<Rightarrow> int \<Rightarrow> outcome" where
  "get e filter_id =
     (case query_filter e filter_id of
        None \<Rightarrow> ([], Inr (error (JStr ''Invalid filter ID.'')))
      | Some f \<Rightarrow>
          call_api e
            \<lparr>req_method = ''get'',
             req_endpoint = ''api/filters/'' @ str_int filter_id,
             req_data = None\<rparr>
            relay)"

definition post :: "env \<Rightarrow> int \<Rightarrow> pydict \<Rightarrow> outcome" where
  "post e filter_id data =
     (let pipeline = dict_get data ''pipeline'' in
      if \<not> truthy pipeline then ([], Inr (error (JStr ''Missing pipeline parameter'')))
      else
        case query_filter e filter_id of
          None \<Rightarrow> ([], Inr (error (JStr ''Invalid filter ID.'')))
        | Some f \<Rightarrow>
            (let group_id = Filter_group_id f;
                 stream = query_stream e (Filter_stream_id f)
             in
              (case altdata_of stream of
                Inl x \<Rightarrow> ([], Inl x)
              | Inr altdata \<Rightarrow>
              (case subscript altdata ''collection'' of
                Inl x \<Rightarrow> ([], Inl x)
              | Inr catalog \<Rightarrow>
              (case subscript altdata ''selector'' of
                Inl x \<Rightarrow> ([], Inl x)
              | Inr permissions \<Rightarrow>
                  call_api e
                    \<lparr>req_method = ''post'',
                     req_endpoint = ''api/filters'',
                     req_data = Some (JObj
                       [(''group_id'', JInt group_id),
                        (''filter_id'', JInt filter_id),
                        (''catalog'', catalog),
                        (''permissions'', permissions),
                        (''pipeline'', pipeline)])\<rparr>
                    relay)))))"

text \<open>The four conditional assignments to \<^verbatim>\<open>patch_data\<close> (lines 260-269).\<close>

definition patch_data :: "env \<Rightarrow> int \<Rightarrow> json \<Rightarrow> json \<Rightarrow> json \<Rightarrow> json \<Rightarrow> pydict" where
  "patch_data e filter_id active active_fid autosave update_annotations =
     (let d0 = [(''filter_id'', JInt filter_id)];
          d1 = (if active \<noteq> JNull then dict_set d0 ''active'' (JBool (truthy active)) else d0);
          d2 = (if active_fid \<noteq> JNull
                then dict_set d1 ''active_fid'' (JStr (py_str (py_repr e) active_fid)) else d1);
          d3 = (if autosave \<noteq> JNull
                then dict_set d2 ''autosave'' (JBool (truthy autosave)) else d2);
          d4 = (if update_annotations \<noteq> JNull
                then dict_set d3 ''update_annotations'' (JBool (truthy update_annotations))
                else d3)
      in d4)"

definition patch :: "env \<Rightarrow> int \<Rightarrow> pydict \<Rightarrow> outcome" where
  "patch e filter_id data =
     (let active = dict_get data ''active'';
          active_fid = dict_get data ''active_fid'';
          autosave = dict_get data ''autosave'';
          update_annotations = dict_get data ''update_annotations''
      in
        if count_list [active, active_fid, autosave, update_annotations] JNull < 1
        then ([], Inr (error (JStr
          ''At least one of (active, active_fid, autosave, update_annotations) must be set'')))
        else
          case query_filter e filter_id of
            None \<Rightarrow> ([], Inr (error (JStr ''Invalid filter ID.'')))
          | Some f \<Rightarrow>
              call_api e
                \<lparr>req_method = ''patch'',
                 req_endpoint = ''api/filters'',
                 req_data = Some (JObj
                   (patch_data e filter_id active active_fid autosave update_annotations))\<rparr>
                relay)"

definition delete :: "env \<Rightarrow> int \<Rightarrow> outcome" where
  "delete e filter_id =
     (case query_filter e filter_id of
        None \<Rightarrow> ([], Inr (error (JStr ''Invalid filter ID.'')))
      | Some f \<Rightarrow>
          call_api e
            \<lparr>req_method = ''patch'',
             req_endpoint = ''api/filters/'' @ str_int filter_id,
             req_data = None\<rparr>
            relay_bare)"

section \<open>A small deployment used to run the handler\<close>

text \<open>Five filters: 1 belongs to the caller's group 10 and has a complete stream; 2
  belongs to group 20, which the caller cannot access; 3 belongs to group 10 but its
  stream row does not exist; 4 belongs to group 10 and its stream has no
  \<^verbatim>\<open>selector\<close>; 5 belongs to group 10 and its complete stream is the last row
  of the table.\<close>

definition demo_env :: "(request \<Rightarrow> api_result) \<Rightarrow> env" where
  "demo_env api =
     \<lparr>filters =
        [\<lparr>Filter_id = 1, Filter_group_id = 10, Filter_stream_id = 100\<rparr>,
         \<lparr>Filter_id = 2, Filter_group_id = 20, Filter_stream_id = 100\<rparr>,
         \<lparr>Filter_id = 3, Filter_group_id = 10, Filter_stream_id = 300\<rparr>,
         \<lparr>Filter_id = 4, Filter_group_id = 10, Filter_stream_id = 400\<rparr>,
         \<lparr>Filter_id = 5, Filter_group_id = 10, Filter_stream_id = 500\<rparr>],
      streams =
        [\<lparr>Stream_id = 100,
          Stream_altdata = JObj [(''collection'', JStr ''ZTF_alerts''),
                                 (''selector'', JList [JInt 1, JInt 2])]\<rparr>,
         \<lparr>Stream_id = 400,
          Stream_altdata = JObj [(''collection'', JStr ''ZUDS_alerts'')]\<rparr>,
         \<lparr>Stream_id = 500,
          Stream_altdata = JObj [(''selector'', JList [JInt 3]),
                                 (''collection'', JStr ''ZUDS_alerts'')]\<rparr>],
      accessible_groups = [\<lparr>Group_id = 10\<rparr>],
      kowalski_api = api,
      py_repr = (\<lambda>v. ''?'')\<rparr>"

text \<open>Four remote services: one that accepts everything, one that reports an error,
  one that cannot be reached, and one that answers with something that is not an
  object.\<close>

definition api_ok :: "request \<Rightarrow> api_result" where
  "api_ok req =
     Returns (JObj [(''status'', JStr ''success''),
                    (''data'', JObj [(''fid'', JStr ''abc123'')])])"

definition api_not_found :: "request \<Rightarrow> api_result" where
  "api_not_found req =
     Returns (JObj [(''status'', JStr ''error''), (''message'', JStr ''not found'')])"

definition api_down :: "request \<Rightarrow> api_result" where
  "api_down req = Raises ''ConnectionError''"

definition api_garbled :: "request \<Rightarrow> api_result" where
  "api_garbled req = Returns (JList [])"

section \<open>Facts about the parts of a handler\<close>

lemma str_int_small:
  "str_int 1 = ''1''" "str_int 2 = ''2''" "str_int 3 = ''3''" "str_int 4 = ''4''"
  by (simp_all add: str_int_def str_nat.simps)

lemma query_filter_demo:
  "query_filter (demo_env api) 1 =
     Some \<lparr>Filter_id = 1, Filter_group_id = 10, Filter_stream_id = 100\<rparr>"
  "query_filter (demo_env api) 2 = None"
  "query_filter (demo_env api) 3 =
     Some \<lparr>Filter_id = 3, Filter_group_id = 10, Filter_stream_id = 300\<rparr>"
  "query_filter (demo_env api) 4 =
     Some \<lparr>Filter_id = 4, Filter_group_id = 10, Filter_stream_id = 400\<rparr>"
  "query_filter (demo_env api) 5 =
     Some \<lparr>Filter_id = 5, Filter_group_id = 10, Filter_stream_id = 500\<rparr>"
  by (simp_all add: query_filter_def demo_env_def)

lemma demo_env_streams:
  "streams (demo_env api) =
     [\<lparr>Stream_id = 100,
       Stream_altdata = JObj [(''collection'', JStr ''ZTF_alerts''),
                              (''selector'', JList [JInt 1, JInt 2])]\<rparr>,
      \<lparr>Stream_id = 400,
       Stream_altdata = JObj [(''collection'', JStr ''ZUDS_alerts'')]\<rparr>,
      \<lparr>Stream_id = 500,
       Stream_altdata = JObj [(''selector'', JList [JInt 3]),
                              (''collection'', JStr ''ZUDS_alerts'')]\<rparr>]"
  by (simp add: demo_env_def)

text \<open>What the two queries return is a row of the table that meets the filter of the
  query, and the first such row.\<close>

lemma find_first:
  "(\<forall>x. x \<in> set before \<longrightarrow> \<not> P x) \<Longrightarrow> P s \<Longrightarrow> find P (before @ s # after) = Some s"
  by (induction before) simp_all

lemma find_SomeD: "find P xs = Some s \<Longrightarrow> s \<in> set xs \<and> P s"
  by (induction xs) (auto split: if_splits)

lemma query_stream_first:
  "streams e = before @ s # after \<Longrightarrow>
   (\<forall>x. x \<in> set before \<longrightarrow> Stream_id x \<noteq> sid) \<Longrightarrow> Stream_id s = sid \<Longrightarrow>
   query_stream e sid = Some s"
  by (simp add: query_stream_def find_first)

lemma query_stream_SomeD:
  "query_stream e sid = Some s \<Longrightarrow> s \<in> set (streams e) \<and> Stream_id s = sid"
  unfolding query_stream_def by (rule find_SomeD)

lemma query_filter_SomeD:
  "query_filter e filter_id = Some f \<Longrightarrow>
   f \<in> set (filters e) \<and> Filter_id f = filter_id
   \<and> Filter_group_id f \<in> set (map Group_id (accessible_groups e))"
  unfolding query_filter_def by (drule find_SomeD) simp

lemma query_stream_demo:
  "query_stream (demo_env api) 100 =
     Some \<lparr>Stream_id = 100,
           Stream_altdata = JObj [(''collection'', JStr ''ZTF_alerts''),
                                  (''selector'', JList [JInt 1, JInt 2])]\<rparr>"
  "query_stream (demo_env api) 300 = None"
  "query_stream (demo_env api) 400 =
     Some \<lparr>Stream_id = 400, Stream_altdata = JObj [(''collection'', JStr ''ZUDS_alerts'')]\<rparr>"
  by (simp_all add: query_stream_def demo_env_def)

lemma demo_env_api: "kowalski_api (demo_env api) = api"
  by (simp add: demo_env_def)

lemma call_api_calls: "fst (call_api e req k) = [req]"
  by (simp add: call_api_def split: api_result.split)

lemma call_api_Raises:
  "kowalski_api e req = Raises x \<Longrightarrow> call_api e req k = ([req], Inl (RemoteException x))"
  by (simp add: call_api_def)

lemma call_api_Returns:
  "kowalski_api e req = Returns r \<Longrightarrow> call_api e req k = ([req], k r)"
  by (simp add: call_api_def)

lemma relay_obj:
  "relay (JObj d) =
     Inr (if dict_get d ''status'' = JStr ''success'' then success (Some (dict_get d ''data''))
          else error (dict_get d ''message''))"
  by (simp add: relay_def response_get_def)

lemma relay_bare_obj:
  "relay_bare (JObj d) =
     Inr (if dict_get d ''status'' = JStr ''success'' then success None
          else error (dict_get d ''message''))"
  by (simp add: relay_bare_def response_get_def)

lemma relay_not_obj: "\<forall>d. r \<noteq> JObj d \<Longrightarrow> relay r = Inl AttributeError"
  by (cases r) (simp_all add: relay_def response_get_def)

lemma relay_bare_not_obj: "\<forall>d. r \<noteq> JObj d \<Longrightarrow> relay_bare r = Inl AttributeError"
  by (cases r) (simp_all add: relay_bare_def response_get_def)

lemma post_falsy_pipeline:
  "\<not> truthy (dict_get data ''pipeline'') \<Longrightarrow>
   post e filter_id data = ([], Inr (error (JStr ''Missing pipeline parameter'')))"
  by (simp add: post_def)

lemma post_no_filter:
  "truthy (dict_get data ''pipeline'') \<Longrightarrow> query_filter e filter_id = None \<Longrightarrow>
   post e filter_id data = ([], Inr (error (JStr ''Invalid filter ID.'')))"
  by (simp add: post_def)

lemma patch_no_filter:
  "\<not> count_list [dict_get data ''active'', dict_get data ''active_fid'',
       dict_get data ''autosave'', dict_get data ''update_annotations''] JNull < 1 \<Longrightarrow>
   query_filter e filter_id = None \<Longrightarrow>
   patch e filter_id data = ([], Inr (error (JStr ''Invalid filter ID.'')))"
  unfolding patch_def Let_def by (simp only: if_False option.case)

lemma patch_all_set:
  "count_list [dict_get data ''active'', dict_get data ''active_fid'',
       dict_get data ''autosave'', dict_get data ''update_annotations''] JNull < 1 \<Longrightarrow>
   patch e filter_id data = ([], Inr (error (JStr
     ''At least one of (active, active_fid, autosave, update_annotations) must be set'')))"
  unfolding patch_def Let_def by (simp only: if_True)

lemma patch_filter:
  "\<not> count_list [dict_get data ''active'', dict_get data ''active_fid'',
       dict_get data ''autosave'', dict_get data ''update_annotations''] JNull < 1 \<Longrightarrow>
   query_filter e filter_id = Some f \<Longrightarrow>
   patch e filter_id data =
     call_api e
       \<lparr>req_method = ''patch'', req_endpoint = ''api/filters'',
        req_data = Some (JObj (patch_data e filter_id (dict_get data ''active'')
          (dict_get data ''active_fid'') (dict_get data ''autosave'')
          (dict_get data ''update_annotations'')))\<rparr>
       relay"
  unfolding patch_def Let_def by (simp only: if_False option.case)

lemma subscript_obj:
  "subscript (JObj d) k = (case map_of d k of None \<Rightarrow> Inl (KeyError k) | Some x \<Rightarrow> Inr x)"
  by (simp add: subscript_def)

lemma subscript_not_obj: "\<forall>d. v \<noteq> JObj d \<Longrightarrow> subscript v k = Inl TypeError"
  by (cases v) (simp_all add: subscript_def)

lemma subscript_Inr:
  "subscript v k = Inr x \<Longrightarrow> \<exists>d. v = JObj d \<and> map_of d k = Some x"
  by (cases v) (auto simp: subscript_def split: option.splits)

lemma call_api_issued:
  "fst (call_api e r k) = [req] \<Longrightarrow> call_api e r k = call_api e req k"
  by (simp add: call_api_calls)

lemma get_issued: "fst (get e filter_id) = [req] \<Longrightarrow> get e filter_id = call_api e req relay"
  by (auto simp: get_def call_api_calls split: option.splits)

lemma delete_issued:
  "fst (delete e filter_id) = [req] \<Longrightarrow> delete e filter_id = call_api e req relay_bare"
  by (auto simp: delete_def call_api_calls split: option.splits)

lemma post_no_stream:
  "truthy (dict_get data ''pipeline'') \<Longrightarrow> query_filter e filter_id = Some f \<Longrightarrow>
   query_stream e (Filter_stream_id f) = None \<Longrightarrow>
   post e filter_id data = ([], Inl AttributeError)"
  by (simp add: post_def altdata_of_def)

lemma post_no_collection:
  "truthy (dict_get data ''pipeline'') \<Longrightarrow> query_filter e filter_id = Some f \<Longrightarrow>
   query_stream e (Filter_stream_id f) = Some s \<Longrightarrow>
   subscript (Stream_altdata s) ''collection'' = Inl x \<Longrightarrow>
   post e filter_id data = ([], Inl x)"
  by (simp add: post_def altdata_of_def)

lemma post_no_selector:
  "truthy (dict_get data ''pipeline'') \<Longrightarrow> query_filter e filter_id = Some f \<Longrightarrow>
   query_stream e (Filter_stream_id f) = Some s \<Longrightarrow>
   subscript (Stream_altdata s) ''collection'' = Inr catalog \<Longrightarrow>
   subscript (Stream_altdata s) ''selector'' = Inl x \<Longrightarrow>
   post e filter_id data = ([], Inl x)"
  by (simp add: post_def altdata_of_def)

lemma post_sent:
  "truthy (dict_get data ''pipeline'') \<Longrightarrow> query_filter e filter_id = Some f \<Longrightarrow>
   query_stream e (Filter_stream_id f) = Some s \<Longrightarrow>
   subscript (Stream_altdata s) ''collection'' = Inr catalog \<Longrightarrow>
   subscript (Stream_altdata s) ''selector'' = Inr permissions \<Longrightarrow>
   post e filter_id data =
     call_api e
       \<lparr>req_method = ''post'', req_endpoint = ''api/filters'',
        req_data = Some (JObj
          [(''group_id'', JInt (Filter_group_id f)),
           (''filter_id'', JInt filter_id),
           (''catalog'', catalog),
           (''permissions'', permissions),
           (''pipeline'', dict_get data ''pipeline'')])\<rparr>
       relay"
  by (simp add: post_def altdata_of_def)

lemma post_issued:
  assumes a: "fst (post e filter_id data) = [req]"
  shows "post e filter_id data = call_api e req relay"
proof (cases "truthy (dict_get data ''pipeline'')")
  case False
  with a post_falsy_pipeline [of data e filter_id] show ?thesis by simp
next
  case t: True
  show ?thesis
  proof (cases "query_filter e filter_id")
    case None
    with a post_no_filter [OF t, of e filter_id] show ?thesis by simp
  next
    case f: (Some f)
    show ?thesis
    proof (cases "query_stream e (Filter_stream_id f)")
      case None
      with a post_no_stream [OF t f] show ?thesis by simp
    next
      case s: (Some s)
      show ?thesis
      proof (cases "subscript (Stream_altdata s) ''collection''")
        case (Inl x)
        with a post_no_collection [OF t f s] show ?thesis by simp
      next
        case c: (Inr catalog)
        show ?thesis
        proof (cases "subscript (Stream_altdata s) ''selector''")
          case (Inl x)
          with a post_no_selector [OF t f s c] show ?thesis by simp
        next
          case (Inr permissions)
          with a post_sent [OF t f s c] show ?thesis by (simp add: call_api_calls)
        qed
      qed
    qed
  qed
qed

lemma patch_issued:
  "fst (patch e filter_id data) = [req] \<Longrightarrow> patch e filter_id data = call_api e req relay"
proof (cases "count_list [dict_get data ''active'', dict_get data ''active_fid'',
       dict_get data ''autosave'', dict_get data ''update_annotations''] JNull < 1")
  case True
  assume "fst (patch e filter_id data) = [req]"
  with patch_all_set [OF True, of e filter_id] show ?thesis by simp
next
  case False
  assume a: "fst (patch e filter_id data) = [req]"
  show ?thesis
  proof (cases "query_filter e filter_id")
    case None
    with a patch_no_filter [OF False, of e filter_id] show ?thesis by simp
  next
    case (Some f)
    with a patch_filter [OF False, of e filter_id f] show ?thesis
      by (simp add: call_api_calls)
  qed
qed

lemma patch_data_list:
  "patch_data e filter_id active active_fid autosave update_annotations =
     (''filter_id'', JInt filter_id)
     # (if active = JNull then [] else [(''active'', JBool (truthy active))])
     @ (if active_fid = JNull then []
        else [(''active_fid'', JStr (py_str (py_repr e) active_fid))])
     @ (if autosave = JNull then [] else [(''autosave'', JBool (truthy autosave))])
     @ (if update_annotations = JNull then []
        else [(''update_annotations'', JBool (truthy update_annotations))])"
  by (cases "active = JNull"; cases "active_fid = JNull"; cases "autosave = JNull";
      cases "update_annotations = JNull")
     (simp_all add: patch_data_def)

section \<open>Authorization\<close>

text \<open>
  Claim C1, as amended. When the filter identifier does not resolve to a Filter row of an
  accessible group, Fetch and Deactivate answer \<^verbatim>\<open>"Invalid filter ID."\<close>; Create does so
  when the body carries a non-empty pipeline, and Update does so when at least one and
  not all of the four optional fields are set. Whatever the body, Create and Update
  issue no remote call.
\<close>

theorem inaccessible_filter_rejected:
  assumes "query_filter e filter_id = None"
  shows "get e filter_id = ([], Inr (error (JStr ''Invalid filter ID.'')))
       \<and> delete e filter_id = ([], Inr (error (JStr ''Invalid filter ID.'')))
       \<and> (truthy (dict_get data ''pipeline'') \<longrightarrow>
            post e filter_id data = ([], Inr (error (JStr ''Invalid filter ID.''))))
       \<and> (0 < count_list [dict_get body ''active'', dict_get body ''active_fid'',
                 dict_get body ''autosave'', dict_get body ''update_annotations''] JNull
          \<and> count_list [dict_get body ''active'', dict_get body ''active_fid'',
                 dict_get body ''autosave'', dict_get body ''update_annotations''] JNull < 4 \<longrightarrow>
            patch e filter_id body = ([], Inr (error (JStr ''Invalid filter ID.''))))
       \<and> fst (post e filter_id data) = []
       \<and> fst (patch e filter_id body) = []"
proof -
  have g: "get e filter_id = ([], Inr (error (JStr ''Invalid filter ID.'')))"
    using assms by (simp add: get_def)
  have d: "delete e filter_id = ([], Inr (error (JStr ''Invalid filter ID.'')))"
    using assms by (simp add: delete_def)
  have p: "truthy (dict_get data ''pipeline'') \<longrightarrow>
            post e filter_id data = ([], Inr (error (JStr ''Invalid filter ID.'')))"
    using assms by (simp add: post_no_filter)
  have u: "0 < count_list [dict_get body ''active'', dict_get body ''active_fid'',
                 dict_get body ''autosave'', dict_get body ''update_annotations''] JNull
          \<and> count_list [dict_get body ''active'', dict_get body ''active_fid'',
                 dict_get body ''autosave'', dict_get body ''update_annotations''] JNull < 4 \<longrightarrow>
            patch e filter_id body = ([], Inr (error (JStr ''Invalid filter ID.'')))"
    using assms patch_no_filter [of body e filter_id] by linarith
  have pc: "fst (post e filter_id data) = []"
    using assms post_falsy_pipeline [of data e filter_id] post_no_filter [of data e filter_id]
    by (cases "truthy (dict_get data ''pipeline'')") simp_all
  have uc: "fst (patch e filter_id body) = []"
    using assms patch_all_set [of body e filter_id] patch_no_filter [of body e filter_id]
    by (cases "count_list [dict_get body ''active'', dict_get body ''active_fid'',
          dict_get body ''autosave'', dict_get body ''update_annotations''] JNull < 1") simp_all
  from g d p u pc uc show ?thesis by blast
qed

text \<open>Filter 2 of the demonstration deployment belongs to a group the caller cannot
  access.\<close>

theorem inaccessible_filter_rejected_witness:
  "query_filter (demo_env api_ok) 2 = None
   \<and> get (demo_env api_ok) 2 = ([], Inr (error (JStr ''Invalid filter ID.'')))
   \<and> delete (demo_env api_ok) 2 = ([], Inr (error (JStr ''Invalid filter ID.'')))
   \<and> post (demo_env api_ok) 2 [(''pipeline'', JList [JObj [(''$match'', JObj [])]])]
       = ([], Inr (error (JStr ''Invalid filter ID.'')))
   \<and> patch (demo_env api_ok) 2 [(''active'', JBool True)]
       = ([], Inr (error (JStr ''Invalid filter ID.'')))"
  using inaccessible_filter_rejected
    [of "demo_env api_ok" 2 "[(''pipeline'', JList [JObj [(''$match'', JObj [])]])]"
        "[(''active'', JBool True)]"]
  by (simp add: query_filter_demo dict_get_def)

text \<open>
  Claim C1 as stated fails: for the inaccessible filter 2 and an empty body, Create
  answers \<^verbatim>\<open>"Missing pipeline parameter"\<close>, because line 144 checks the pipeline before
  the query of line 147 runs.
\<close>

theorem create_validates_before_authorizing:
  "query_filter (demo_env api_ok) 2 = None
   \<and> post (demo_env api_ok) 2 [] = ([], Inr (error (JStr ''Missing pipeline parameter'')))
   \<and> post (demo_env api_ok) 2 [] \<noteq> ([], Inr (error (JStr ''Invalid filter ID.'')))"
  by (simp add: query_filter_demo post_def dict_get_def)

section \<open>Validation\<close>

text \<open>
  Claim C2 against the code. The test of line 241 is \<^verbatim>\<open>count(None) < 1\<close>, which holds
  when none of the four values is \<^verbatim>\<open>None\<close>. An Update whose body has none of the four
  fields is therefore not rejected: for the accessible filter 1 it is forwarded with
  only \<^verbatim>\<open>filter_id\<close> in the payload, and for the inaccessible filter 2 the answer is
  \<^verbatim>\<open>"Invalid filter ID."\<close>, not the validation message.
\<close>

theorem update_empty_body_forwarded:
  "patch (demo_env api_ok) 1 [] =
     ([\<lparr>req_method = ''patch'', req_endpoint = ''api/filters'',
        req_data = Some (JObj [(''filter_id'', JInt 1)])\<rparr>],
      Inr (success (Some (JObj [(''fid'', JStr ''abc123'')]))))
   \<and> patch (demo_env api_ok) 2 [] = ([], Inr (error (JStr ''Invalid filter ID.'')))"
  by (simp add: patch_def patch_data_def dict_get_def query_filter_demo call_api_def
      demo_env_api api_ok_def relay_obj)

text \<open>
  Claim C5. A Create whose body has no \<^verbatim>\<open>pipeline\<close>, or an empty one (any value
  Python takes as false: \<^verbatim>\<open>None\<close>, \<^verbatim>\<open>[]\<close>, \<^verbatim>\<open>""\<close>, \<^verbatim>\<open>{}\<close>, \<^verbatim>\<open>0\<close>,
  \<^verbatim>\<open>false\<close>), answers \<^verbatim>\<open>"Missing pipeline parameter"\<close> and issues no remote call, for
  every filter identifier and every deployment.
\<close>

theorem create_missing_pipeline:
  assumes "map_of data ''pipeline'' = None
         \<or> (\<exists>v. map_of data ''pipeline'' = Some v \<and> \<not> truthy v)"
  shows "post e filter_id data = ([], Inr (error (JStr ''Missing pipeline parameter'')))"
proof -
  from assms have "\<not> truthy (dict_get data ''pipeline'')"
    by (auto simp: dict_get_def)
  then show ?thesis by (rule post_falsy_pipeline)
qed

text \<open>An absent pipeline and an empty list, on the accessible filter 1.\<close>

theorem create_missing_pipeline_witness:
  "post (demo_env api_ok) 1 [] = ([], Inr (error (JStr ''Missing pipeline parameter'')))
   \<and> post (demo_env api_ok) 1 [(''pipeline'', JList [])]
       = ([], Inr (error (JStr ''Missing pipeline parameter'')))"
  using create_missing_pipeline [of "[]" "demo_env api_ok" 1]
        create_missing_pipeline [of "[(''pipeline'', JList [])]" "demo_env api_ok" 1]
  by simp

text \<open>
  Claim C9. In Create the pipeline is checked before the filter is looked up: for an
  inaccessible filter identifier and a missing or empty pipeline the answer is
  \<^verbatim>\<open>"Missing pipeline parameter"\<close>, not \<^verbatim>\<open>"Invalid filter ID."\<close>, and no remote call is
  issued.
\<close>

theorem create_validation_precedes_lookup:
  assumes "query_filter e filter_id = None"
    and "map_of data ''pipeline'' = None
         \<or> (\<exists>v. map_of data ''pipeline'' = Some v \<and> \<not> truthy v)"
  shows "post e filter_id data = ([], Inr (error (JStr ''Missing pipeline parameter'')))
       \<and> snd (post e filter_id data) \<noteq> Inr (error (JStr ''Invalid filter ID.''))"
proof -
  from assms(2) have "\<not> truthy (dict_get data ''pipeline'')"
    by (auto simp: dict_get_def)
  then have "post e filter_id data = ([], Inr (error (JStr ''Missing pipeline parameter'')))"
    by (rule post_falsy_pipeline)
  then show ?thesis by simp
qed

text \<open>The inaccessible filter 2 with an empty pipeline.\<close>

theorem create_validation_precedes_lookup_witness:
  "query_filter (demo_env api_ok) 2 = None
   \<and> post (demo_env api_ok) 2 [(''pipeline'', JList [])]
       = ([], Inr (error (JStr ''Missing pipeline parameter'')))
   \<and> snd (post (demo_env api_ok) 2 [(''pipeline'', JList [])])
       \<noteq> Inr (error (JStr ''Invalid filter ID.''))"
  using create_validation_precedes_lookup
    [of "demo_env api_ok" 2 "[(''pipeline'', JList [])]"]
  by (simp add: query_filter_demo)

section \<open>Failures of the remote call\<close>

text \<open>
  Claim C3 as stated fails: no handler has a \<^verbatim>\<open>try\<close>. When the remote client raises
  during Fetch of the accessible filter 1, the exception leaves the handler.
\<close>

theorem fetch_remote_down:
  "get (demo_env api_down) 1 =
     ([\<lparr>req_method = ''get'', req_endpoint = ''api/filters/1'', req_data = None\<rparr>],
      Inl (RemoteException ''ConnectionError''))"
  by (simp add: get_def query_filter_demo call_api_def demo_env_api api_down_def str_int_small)

text \<open>
  Claim C3, as amended. In each of the four operations, when the remote call that the
  handler issues raises, the exception leaves the handler as an unhandled fault; and
  when the call returns a value that is not a JSON object, the handler's
  \<^verbatim>\<open>response.get\<close> raises an AttributeError that leaves the handler too. No reply is
  written in either case.
\<close>

theorem remote_failure_propagates:
  "(fst (get e filter_id) = [req] \<and> kowalski_api e req = Raises x \<longrightarrow>
      snd (get e filter_id) = Inl (RemoteException x))
 \<and> (fst (post e filter_id data) = [req] \<and> kowalski_api e req = Raises x \<longrightarrow>
      snd (post e filter_id data) = Inl (RemoteException x))
 \<and> (fst (patch e filter_id data) = [req] \<and> kowalski_api e req = Raises x \<longrightarrow>
      snd (patch e filter_id data) = Inl (RemoteException x))
 \<and> (fst (delete e filter_id) = [req] \<and> kowalski_api e req = Raises x \<longrightarrow>
      snd (delete e filter_id) = Inl (RemoteException x))
 \<and> (fst (get e filter_id) = [req] \<and> kowalski_api e req = Returns r \<and> (\<forall>d. r \<noteq> JObj d) \<longrightarrow>
      snd (get e filter_id) = Inl AttributeError)
 \<and> (fst (post e filter_id data) = [req] \<and> kowalski_api e req = Returns r \<and> (\<forall>d. r \<noteq> JObj d) \<longrightarrow>
      snd (post e filter_id data) = Inl AttributeError)
 \<and> (fst (patch e filter_id data) = [req] \<and> kowalski_api e req = Returns r \<and> (\<forall>d. r \<noteq> JObj d) \<longrightarrow>
      snd (patch e filter_id data) = Inl AttributeError)
 \<and> (fst (delete e filter_id) = [req] \<and> kowalski_api e req = Returns r \<and> (\<forall>d. r \<noteq> JObj d) \<longrightarrow>
      snd (delete e filter_id) = Inl AttributeError)"
proof -
  have raises: "snd out = Inl (RemoteException x)"
    if "out = call_api e req k" "kowalski_api e req = Raises x" for k out
    using that by (simp add: call_api_Raises)
  have garbled: "snd out = Inl AttributeError"
    if "out = call_api e req relay \<or> out = call_api e req relay_bare"
       "kowalski_api e req = Returns r" "\<forall>d. r \<noteq> JObj d" for out
    using that by (auto simp: call_api_Returns relay_not_obj relay_bare_not_obj)
  note gi = get_issued [of e filter_id req] and di = delete_issued [of e filter_id req]
    and pi = post_issued [of e filter_id data req] and ui = patch_issued [of e filter_id data req]
  have "fst (get e filter_id) = [req] \<and> kowalski_api e req = Raises x \<longrightarrow>
      snd (get e filter_id) = Inl (RemoteException x)"
    using gi raises by blast
  moreover have "fst (post e filter_id data) = [req] \<and> kowalski_api e req = Raises x \<longrightarrow>
      snd (post e filter_id data) = Inl (RemoteException x)"
    using pi raises by blast
  moreover have "fst (patch e filter_id data) = [req] \<and> kowalski_api e req = Raises x \<longrightarrow>
      snd (patch e filter_id data) = Inl (RemoteException x)"
    using ui raises by blast
  moreover have "fst (delete e filter_id) = [req] \<and> kowalski_api e req = Raises x \<longrightarrow>
      snd (delete e filter_id) = Inl (RemoteException x)"
    using di raises by blast
  moreover have "fst (get e filter_id) = [req] \<and> kowalski_api e req = Returns r
      \<and> (\<forall>d. r \<noteq> JObj d) \<longrightarrow> snd (get e filter_id) = Inl AttributeError"
    using gi garbled by blast
  moreover have "fst (post e filter_id data) = [req] \<and> kowalski_api e req = Returns r
      \<and> (\<forall>d. r \<noteq> JObj d) \<longrightarrow> snd (post e filter_id data) = Inl AttributeError"
    using pi garbled by blast
  moreover have "fst (patch e filter_id data) = [req] \<and> kowalski_api e req = Returns r
      \<and> (\<forall>d. r \<noteq> JObj d) \<longrightarrow> snd (patch e filter_id data) = Inl AttributeError"
    using ui garbled by blast
  moreover have "fst (delete e filter_id) = [req] \<and> kowalski_api e req = Returns r
      \<and> (\<forall>d. r \<noteq> JObj d) \<longrightarrow> snd (delete e filter_id) = Inl AttributeError"
    using di garbled by blast
  ultimately show ?thesis by blast
qed

text \<open>An unreachable remote service under Fetch, Deactivate and Update, and a remote
  service that answers with a list under Fetch.\<close>

theorem remote_failure_propagates_witness:
  "get (demo_env api_down) 1 =
     ([\<lparr>req_method = ''get'', req_endpoint = ''api/filters/1'', req_data = None\<rparr>],
      Inl (RemoteException ''ConnectionError''))
   \<and> delete (demo_env api_down) 1 =
     ([\<lparr>req_method = ''patch'', req_endpoint = ''api/filters/1'', req_data = None\<rparr>],
      Inl (RemoteException ''ConnectionError''))
   \<and> patch (demo_env api_down) 1 [(''active'', JBool True)] =
     ([\<lparr>req_method = ''patch'', req_endpoint = ''api/filters'',
        req_data = Some (JObj [(''filter_id'', JInt 1), (''active'', JBool True)])\<rparr>],
      Inl (RemoteException ''ConnectionError''))
   \<and> get (demo_env api_garbled) 1 =
     ([\<lparr>req_method = ''get'', req_endpoint = ''api/filters/1'', req_data = None\<rparr>],
      Inl AttributeError)"
proof -
  let ?g = "\<lparr>req_method = ''get'', req_endpoint = ''api/filters/1'', req_data = None\<rparr>"
  let ?d = "\<lparr>req_method = ''patch'', req_endpoint = ''api/filters/1'', req_data = None\<rparr>"
  let ?p = "\<lparr>req_method = ''patch'', req_endpoint = ''api/filters'',
        req_data = Some (JObj [(''filter_id'', JInt 1), (''active'', JBool True)])\<rparr>"
  have fg: "fst (get (demo_env api) 1) = [?g]" for api
    by (simp add: get_def query_filter_demo call_api_calls str_int_small)
  have fd: "fst (delete (demo_env api) 1) = [?d]" for api
    by (simp add: delete_def query_filter_demo call_api_calls str_int_small)
  have fp: "fst (patch (demo_env api) 1 [(''active'', JBool True)]) = [?p]" for api
    by (simp add: patch_def patch_data_def dict_get_def query_filter_demo call_api_calls)
  have down: "kowalski_api (demo_env api_down) q = Raises ''ConnectionError''" for q
    by (simp add: demo_env_api api_down_def)
  have garbled: "kowalski_api (demo_env api_garbled) q = Returns (JList [])" for q
    by (simp add: demo_env_api api_garbled_def)
  from remote_failure_propagates
    [of "demo_env api_down" 1 ?g "''ConnectionError''" "[]" "JNull"] fg down
  have 1: "snd (get (demo_env api_down) 1) = Inl (RemoteException ''ConnectionError'')"
    by blast
  from remote_failure_propagates
    [of "demo_env api_down" 1 ?d "''ConnectionError''" "[]" "JNull"] fd down
  have 2: "snd (delete (demo_env api_down) 1) = Inl (RemoteException ''ConnectionError'')"
    by blast
  from remote_failure_propagates
    [of "demo_env api_down" 1 ?p "''ConnectionError''" "[(''active'', JBool True)]" "JNull"]
    fp down
  have 3: "snd (patch (demo_env api_down) 1 [(''active'', JBool True)])
             = Inl (RemoteException ''ConnectionError'')"
    by blast
  from remote_failure_propagates
    [of "demo_env api_garbled" 1 ?g "''x''" "[]" "JList []"] fg garbled
  have 4: "snd (get (demo_env api_garbled) 1) = Inl AttributeError"
    by simp
  from 1 2 3 4 fg fd fp show ?thesis
    by (simp add: prod_eq_iff)
qed

section \<open>Create\<close>

text \<open>
  Claim C4. Let a Create with a non-empty pipeline be authorized: the query of line 147
  returns the Filter \<open>f\<close>, a row whose id is the path parameter and whose group is
  accessible. When \<open>s\<close> is the Stream associated with \<open>f\<close>, which is the first row
  of the Stream table whose id is \<open>f.stream_id\<close>, and its altdata has \<^verbatim>\<open>collection\<close>
  and \<^verbatim>\<open>selector\<close>, exactly one remote call is issued, a POST to \<^verbatim>\<open>api/filters\<close>
  whose payload is \<^verbatim>\<open>group_id\<close> of \<open>f\<close>, \<^verbatim>\<open>filter_id\<close> of the path, \<^verbatim>\<open>catalog\<close>
  and \<^verbatim>\<open>permissions\<close> from the altdata of \<open>s\<close> and the caller's pipeline, in this
  order. Every remote call such a Create issues is of this form, for a Stream row whose
  id is \<open>f.stream_id\<close>.
\<close>

theorem create_payload:
  assumes "query_filter e filter_id = Some f"
    and "truthy (dict_get data ''pipeline'')"
  shows "f \<in> set (filters e) \<and> Filter_id f = filter_id
       \<and> Filter_group_id f \<in> set (map Group_id (accessible_groups e))
       \<and> (\<forall>before s after altdata catalog permissions.
            streams e = before @ s # after
          \<and> (\<forall>x. x \<in> set before \<longrightarrow> Stream_id x \<noteq> Filter_stream_id f)
          \<and> Stream_id s = Filter_stream_id f
          \<and> Stream_altdata s = JObj altdata
          \<and> map_of altdata ''collection'' = Some catalog
          \<and> map_of altdata ''selector'' = Some permissions \<longrightarrow>
            fst (post e filter_id data) =
              [\<lparr>req_method = ''post'', req_endpoint = ''api/filters'',
                req_data = Some (JObj
                  [(''group_id'', JInt (Filter_group_id f)),
                   (''filter_id'', JInt filter_id),
                   (''catalog'', catalog),
                   (''permissions'', permissions),
                   (''pipeline'', dict_get data ''pipeline'')])\<rparr>])
       \<and> (\<forall>req. req \<in> set (fst (post e filter_id data)) \<longrightarrow>
            (\<exists>s altdata catalog permissions.
               s \<in> set (streams e)
             \<and> Stream_id s = Filter_stream_id f
             \<and> Stream_altdata s = JObj altdata
             \<and> map_of altdata ''collection'' = Some catalog
             \<and> map_of altdata ''selector'' = Some permissions
             \<and> req = \<lparr>req_method = ''post'', req_endpoint = ''api/filters'',
                req_data = Some (JObj
                  [(''group_id'', JInt (Filter_group_id f)),
                   (''filter_id'', JInt filter_id),
                   (''catalog'', catalog),
                   (''permissions'', permissions),
                   (''pipeline'', dict_get data ''pipeline'')])\<rparr>))"
proof (intro conjI allI impI)
  from query_filter_SomeD [OF assms(1)]
  show "f \<in> set (filters e)" and "Filter_id f = filter_id"
    and "Filter_group_id f \<in> set (map Group_id (accessible_groups e))"
    by blast+
next
  fix before s after altdata catalog permissions
  assume h: "streams e = before @ s # after
          \<and> (\<forall>x. x \<in> set before \<longrightarrow> Stream_id x \<noteq> Filter_stream_id f)
          \<and> Stream_id s = Filter_stream_id f
          \<and> Stream_altdata s = JObj altdata
          \<and> map_of altdata ''collection'' = Some catalog
          \<and> map_of altdata ''selector'' = Some permissions"
  then have c: "subscript (Stream_altdata s) ''collection'' = Inr catalog"
    and p: "subscript (Stream_altdata s) ''selector'' = Inr permissions"
    by (simp_all add: subscript_obj)
  from h have s: "query_stream e (Filter_stream_id f) = Some s"
    by (intro query_stream_first [of e before s after]) blast+
  show "fst (post e filter_id data) =
              [\<lparr>req_method = ''post'', req_endpoint = ''api/filters'',
                req_data = Some (JObj
                  [(''group_id'', JInt (Filter_group_id f)),
                   (''filter_id'', JInt filter_id),
                   (''catalog'', catalog),
                   (''permissions'', permissions),
                   (''pipeline'', dict_get data ''pipeline'')])\<rparr>]"
    by (simp only: post_sent [OF assms(2) assms(1) s c p] call_api_calls)
next
  fix req
  assume r: "req \<in> set (fst (post e filter_id data))"
  show "\<exists>s altdata catalog permissions.
               s \<in> set (streams e)
             \<and> Stream_id s = Filter_stream_id f
             \<and> Stream_altdata s = JObj altdata
             \<and> map_of altdata ''collection'' = Some catalog
             \<and> map_of altdata ''selector'' = Some permissions
             \<and> req = \<lparr>req_method = ''post'', req_endpoint = ''api/filters'',
                req_data = Some (JObj
                  [(''group_id'', JInt (Filter_group_id f)),
                   (''filter_id'', JInt filter_id),
                   (''catalog'', catalog),
                   (''permissions'', permissions),
                   (''pipeline'', dict_get data ''pipeline'')])\<rparr>"
  proof (cases "query_stream e (Filter_stream_id f)")
    case None
    with r post_no_stream [OF assms(2) assms(1)] show ?thesis by simp
  next
    case s: (Some s)
    show ?thesis
    proof (cases "subscript (Stream_altdata s) ''collection''")
      case (Inl x)
      with r post_no_collection [OF assms(2) assms(1) s] show ?thesis by simp
    next
      case c: (Inr catalog)
      show ?thesis
      proof (cases "subscript (Stream_altdata s) ''selector''")
        case (Inl x)
        with r post_no_selector [OF assms(2) assms(1) s c] show ?thesis by simp
      next
        case p: (Inr permissions)
        from subscript_Inr [OF c] obtain d where d: "Stream_altdata s = JObj d"
          and dc: "map_of d ''collection'' = Some catalog" by blast
        from subscript_Inr [OF p] d have dp: "map_of d ''selector'' = Some permissions"
          by auto
        from query_stream_SomeD [OF s]
        have m: "s \<in> set (streams e)" and i: "Stream_id s = Filter_stream_id f"
          by blast+
        from r post_sent [OF assms(2) assms(1) s c p]
        have "req = \<lparr>req_method = ''post'', req_endpoint = ''api/filters'',
                req_data = Some (JObj
                  [(''group_id'', JInt (Filter_group_id f)),
                   (''filter_id'', JInt filter_id),
                   (''catalog'', catalog),
                   (''permissions'', permissions),
                   (''pipeline'', dict_get data ''pipeline'')])\<rparr>"
          by (simp add: call_api_calls)
        with m i d dc dp show ?thesis by blast
      qed
    qed
  qed
qed

text \<open>The example of the specification, filter 1 with altdata
  \<^verbatim>\<open>{"collection": "ZTF_alerts", "selector": [1, 2]}\<close> and pipeline
  \<^verbatim>\<open>[{"$match": {}}]\<close>; and filter 5, whose Stream 500 is the third row of the
  table.\<close>

theorem create_payload_witness:
  "fst (post (demo_env api_ok) 1 [(''pipeline'', JList [JObj [(''$match'', JObj [])]])]) =
       [\<lparr>req_method = ''post'', req_endpoint = ''api/filters'',
         req_data = Some (JObj
           [(''group_id'', JInt 10),
            (''filter_id'', JInt 1),
            (''catalog'', JStr ''ZTF_alerts''),
            (''permissions'', JList [JInt 1, JInt 2]),
            (''pipeline'', JList [JObj [(''$match'', JObj [])]])])\<rparr>]
   \<and> fst (post (demo_env api_ok) 5 [(''pipeline'', JList [JObj [(''$match'', JObj [])]])]) =
       [\<lparr>req_method = ''post'', req_endpoint = ''api/filters'',
         req_data = Some (JObj
           [(''group_id'', JInt 10),
            (''filter_id'', JInt 5),
            (''catalog'', JStr ''ZUDS_alerts''),
            (''permissions'', JList [JInt 3]),
            (''pipeline'', JList [JObj [(''$match'', JObj [])]])])\<rparr>]"
proof -
  let ?data = "[(''pipeline'', JList [JObj [(''$match'', JObj [])]])]"
  let ?f1 = "\<lparr>Filter_id = 1, Filter_group_id = 10, Filter_stream_id = 100\<rparr>"
  let ?f5 = "\<lparr>Filter_id = 5, Filter_group_id = 10, Filter_stream_id = 500\<rparr>"
  let ?a1 = "[(''collection'', JStr ''ZTF_alerts''), (''selector'', JList [JInt 1, JInt 2])]"
  let ?a4 = "[(''collection'', JStr ''ZUDS_alerts'')]"
  let ?a5 = "[(''selector'', JList [JInt 3]), (''collection'', JStr ''ZUDS_alerts'')]"
  let ?s1 = "\<lparr>Stream_id = 100, Stream_altdata = JObj ?a1\<rparr>"
  let ?s4 = "\<lparr>Stream_id = 400, Stream_altdata = JObj ?a4\<rparr>"
  let ?s5 = "\<lparr>Stream_id = 500, Stream_altdata = JObj ?a5\<rparr>"
  have t: "truthy (dict_get ?data ''pipeline'')"
    by (simp add: dict_get_def)
  have d: "dict_get ?data ''pipeline'' = JList [JObj [(''$match'', JObj [])]]"
    by (simp add: dict_get_def)
  have h1: "streams (demo_env api_ok) = [] @ ?s1 # [?s4, ?s5]
          \<and> (\<forall>x. x \<in> set [] \<longrightarrow> Stream_id x \<noteq> Filter_stream_id ?f1)
          \<and> Stream_id ?s1 = Filter_stream_id ?f1
          \<and> Stream_altdata ?s1 = JObj ?a1
          \<and> map_of ?a1 ''collection'' = Some (JStr ''ZTF_alerts'')
          \<and> map_of ?a1 ''selector'' = Some (JList [JInt 1, JInt 2])"
    by (simp add: demo_env_streams)
  have h5: "streams (demo_env api_ok) = [?s1, ?s4] @ ?s5 # []
          \<and> (\<forall>x. x \<in> set [?s1, ?s4] \<longrightarrow> Stream_id x \<noteq> Filter_stream_id ?f5)
          \<and> Stream_id ?s5 = Filter_stream_id ?f5
          \<and> Stream_altdata ?s5 = JObj ?a5
          \<and> map_of ?a5 ''collection'' = Some (JStr ''ZUDS_alerts'')
          \<and> map_of ?a5 ''selector'' = Some (JList [JInt 3])"
    by (simp add: demo_env_streams)
  note c1 = create_payload [OF query_filter_demo(1) t, of api_ok]
  note c5 = create_payload [OF query_filter_demo(5) t, of api_ok]
  from c1 [THEN conjunct2, THEN conjunct2, THEN conjunct2, THEN conjunct1, rule_format, OF h1]
  have p1: "fst (post (demo_env api_ok) 1 ?data) =
       [\<lparr>req_method = ''post'', req_endpoint = ''api/filters'',
         req_data = Some (JObj
           [(''group_id'', JInt 10),
            (''filter_id'', JInt 1),
            (''catalog'', JStr ''ZTF_alerts''),
            (''permissions'', JList [JInt 1, JInt 2]),
            (''pipeline'', JList [JObj [(''$match'', JObj [])]])])\<rparr>]"
    by (simp add: d)
  from c5 [THEN conjunct2, THEN conjunct2, THEN conjunct2, THEN conjunct1, rule_format, OF h5]
  have p5: "fst (post (demo_env api_ok) 5 ?data) =
       [\<lparr>req_method = ''post'', req_endpoint = ''api/filters'',
         req_data = Some (JObj
           [(''group_id'', JInt 10),
            (''filter_id'', JInt 5),
            (''catalog'', JStr ''ZUDS_alerts''),
            (''permissions'', JList [JInt 3]),
            (''pipeline'', JList [JObj [(''$match'', JObj [])]])])\<rparr>]"
    by (simp add: d)
  from p1 p5 show ?thesis by (rule conjI)
qed

section \<open>Update\<close>

text \<open>
  Claim C6 against the code. An authorized Update whose body supplies all four optional
  fields passes the presence check of the claim, and its PATCH should carry
  \<^verbatim>\<open>filter_id\<close> and the four fields. The test of line 241, \<^verbatim>\<open>count(None) < 1\<close>,
  holds for exactly these bodies: the handler answers with the validation message and
  issues no PATCH at all. This is the inverted test of claim C2.
\<close>

theorem update_all_fields_rejected:
  "query_filter (demo_env api_ok) 1
     = Some \<lparr>Filter_id = 1, Filter_group_id = 10, Filter_stream_id = 100\<rparr>
   \<and> patch (demo_env api_ok) 1
        [(''active'', JBool True), (''active_fid'', JStr ''abc123''),
         (''autosave'', JBool False), (''update_annotations'', JBool True)]
       = ([], Inr (error (JStr
           ''At least one of (active, active_fid, autosave, update_annotations) must be set'')))"
  by (simp add: query_filter_demo patch_def dict_get_def)

text \<open>
  What the code does forward. An authorized Update that the test of line 241 lets through
  (at least one of the four values read from the body is \<^verbatim>\<open>None\<close>) issues exactly one
  remote call, a PATCH to \<^verbatim>\<open>api/filters\<close>, and one that it stops issues none. The
  payload of the PATCH is \<^verbatim>\<open>filter_id\<close> followed by exactly those of \<^verbatim>\<open>active\<close>,
  \<^verbatim>\<open>active_fid\<close>, \<^verbatim>\<open>autosave\<close> and \<^verbatim>\<open>update_annotations\<close> for which
  \<^verbatim>\<open>data.get(k, None)\<close> is not \<^verbatim>\<open>None\<close>, in this order: \<^verbatim>\<open>active\<close>,
  \<^verbatim>\<open>autosave\<close> and \<^verbatim>\<open>update_annotations\<close> as the boolean \<^verbatim>\<open>bool(v)\<close> and
  \<^verbatim>\<open>active_fid\<close> as the string \<^verbatim>\<open>str(v)\<close>. An absent field, like one sent as
  \<^verbatim>\<open>null\<close>, is no key of the payload.
\<close>

lemma update_payload:
  assumes "query_filter e filter_id = Some f"
  shows "fst (patch e filter_id data) =
     (if count_list [dict_get data ''active'', dict_get data ''active_fid'',
           dict_get data ''autosave'', dict_get data ''update_annotations''] JNull < 1
      then []
      else
       [\<lparr>req_method = ''patch'', req_endpoint = ''api/filters'',
         req_data = Some (JObj
           ((''filter_id'', JInt filter_id)
            # (if dict_get data ''active'' = JNull then []
               else [(''active'', JBool (truthy (dict_get data ''active'')))])
            @ (if dict_get data ''active_fid'' = JNull then []
               else [(''active_fid'',
                      JStr (py_str (py_repr e) (dict_get data ''active_fid'')))])
            @ (if dict_get data ''autosave'' = JNull then []
               else [(''autosave'', JBool (truthy (dict_get data ''autosave'')))])
            @ (if dict_get data ''update_annotations'' = JNull then []
               else [(''update_annotations'',
                      JBool (truthy (dict_get data ''update_annotations'')))])))\<rparr>])"
proof (cases "count_list [dict_get data ''active'', dict_get data ''active_fid'',
           dict_get data ''autosave'', dict_get data ''update_annotations''] JNull < 1")
  case True
  then show ?thesis
    by (simp only: patch_all_set [OF True] fst_conv if_True)
next
  case False
  then show ?thesis
    by (simp only: patch_filter [OF False assms] call_api_calls patch_data_list if_False)
qed

lemma py_str_scalars:
  "py_str repr (JStr s) = s"
  "py_str repr (JInt i) = str_int i"
  "py_str repr (JBool True) = ''True''"
  "py_str repr (JBool False) = ''False''"
  by (simp_all add: py_str_def)

text \<open>Three of the four fields, with a version token; and three values that are
  coerced.\<close>

lemma update_payload_examples:
  "fst (patch (demo_env api_ok) 1
        [(''active'', JBool True), (''active_fid'', JStr ''abc123''),
         (''update_annotations'', JBool False)]) =
     [\<lparr>req_method = ''patch'', req_endpoint = ''api/filters'',
       req_data = Some (JObj [(''filter_id'', JInt 1), (''active'', JBool True),
         (''active_fid'', JStr ''abc123''), (''update_annotations'', JBool False)])\<rparr>]
   \<and> fst (patch (demo_env api_ok) 1
        [(''active'', JInt 0), (''active_fid'', JInt 123456), (''autosave'', JStr ''yes'')]) =
     [\<lparr>req_method = ''patch'', req_endpoint = ''api/filters'',
       req_data = Some (JObj [(''filter_id'', JInt 1), (''active'', JBool False),
         (''active_fid'', JStr ''123456''), (''autosave'', JBool True)])\<rparr>]"
proof -
  have s: "str_int 123456 = ''123456''"
    by (simp add: str_int_def str_nat.simps)
  show ?thesis
    using update_payload [OF query_filter_demo(1), of api_ok
        "[(''active'', JBool True), (''active_fid'', JStr ''abc123''),
          (''update_annotations'', JBool False)]"]
      update_payload [OF query_filter_demo(1), of api_ok
        "[(''active'', JInt 0), (''active_fid'', JInt 123456), (''autosave'', JStr ''yes'')]"]
    by (simp add: dict_get_def py_str_scalars s)
qed

section \<open>Fetch and Deactivate\<close>

text \<open>
  Claim C7. For an authorized Fetch whose remote GET returns an object: when its
  \<^verbatim>\<open>status\<close> is \<^verbatim>\<open>"success"\<close> the reply is \<^verbatim>\<open>self.success(data=data)\<close> with the
  remote \<^verbatim>\<open>data\<close> unchanged, and for every other status it is
  \<^verbatim>\<open>self.error(message=message)\<close> with the remote \<^verbatim>\<open>message\<close> and no data.
\<close>

theorem fetch_relays:
  assumes "query_filter e filter_id = Some f"
    and "kowalski_api e
           \<lparr>req_method = ''get'', req_endpoint = ''api/filters/'' @ str_int filter_id,
            req_data = None\<rparr> = Returns (JObj response)"
  shows "get e filter_id =
     ([\<lparr>req_method = ''get'', req_endpoint = ''api/filters/'' @ str_int filter_id,
        req_data = None\<rparr>],
      Inr (if dict_get response ''status'' = JStr ''success''
           then success (Some (dict_get response ''data''))
           else error (dict_get response ''message'')))"
  using assms by (simp add: get_def call_api_Returns relay_obj)

text \<open>A remote success, and the remote answer
  \<^verbatim>\<open>{"status": "error", "message": "not found"}\<close>.\<close>

theorem fetch_relays_witness:
  "get (demo_env api_ok) 1 =
     ([\<lparr>req_method = ''get'', req_endpoint = ''api/filters/1'', req_data = None\<rparr>],
      Inr (success (Some (JObj [(''fid'', JStr ''abc123'')]))))
   \<and> get (demo_env api_not_found) 1 =
     ([\<lparr>req_method = ''get'', req_endpoint = ''api/filters/1'', req_data = None\<rparr>],
      Inr (error (JStr ''not found'')))"
  using fetch_relays [OF query_filter_demo(1), of api_ok
      "[(''status'', JStr ''success''), (''data'', JObj [(''fid'', JStr ''abc123'')])]"]
    fetch_relays [OF query_filter_demo(1), of api_not_found
      "[(''status'', JStr ''error''), (''message'', JStr ''not found'')]"]
  by (simp add: demo_env_api api_ok_def api_not_found_def dict_get_def str_int_small)

text \<open>
  Claim C8. An authorized Deactivate issues exactly one remote call, a PATCH to
  \<^verbatim>\<open>api/filters/{filter_id}\<close> without a body. When the remote answer is an object with
  \<^verbatim>\<open>status\<close> \<^verbatim>\<open>"success"\<close> the reply is \<^verbatim>\<open>self.success()\<close>, with no data argument;
  for every other status it is \<^verbatim>\<open>self.error(message=message)\<close> with the remote
  \<^verbatim>\<open>message\<close>.
\<close>

theorem deactivate_relays:
  assumes "query_filter e filter_id = Some f"
  shows "fst (delete e filter_id) =
           [\<lparr>req_method = ''patch'', req_endpoint = ''api/filters/'' @ str_int filter_id,
             req_data = None\<rparr>]
       \<and> (\<forall>response.
            kowalski_api e
              \<lparr>req_method = ''patch'', req_endpoint = ''api/filters/'' @ str_int filter_id,
               req_data = None\<rparr> = Returns (JObj response) \<longrightarrow>
            snd (delete e filter_id) =
              Inr (if dict_get response ''status'' = JStr ''success'' then success None
                   else error (dict_get response ''message'')))"
  using assms by (simp add: delete_def call_api_calls call_api_Returns relay_bare_obj)

text \<open>Deactivate of filter 1 against a remote success and a remote error.\<close>

theorem deactivate_relays_witness:
  "delete (demo_env api_ok) 1 =
     ([\<lparr>req_method = ''patch'', req_endpoint = ''api/filters/1'', req_data = None\<rparr>],
      Inr (success None))
   \<and> delete (demo_env api_not_found) 1 =
     ([\<lparr>req_method = ''patch'', req_endpoint = ''api/filters/1'', req_data = None\<rparr>],
      Inr (error (JStr ''not found'')))"
proof -
  let ?r = "\<lparr>req_method = ''patch'', req_endpoint = ''api/filters/'' @ str_int 1,
             req_data = None\<rparr>"
  let ?ok = "[(''status'', JStr ''success''), (''data'', JObj [(''fid'', JStr ''abc123'')])]"
  let ?nf = "[(''status'', JStr ''error''), (''message'', JStr ''not found'')]"
  have ok: "kowalski_api (demo_env api_ok) ?r = Returns (JObj ?ok)"
    by (simp add: demo_env_api api_ok_def)
  have nf: "kowalski_api (demo_env api_not_found) ?r = Returns (JObj ?nf)"
    by (simp add: demo_env_api api_not_found_def)
  note d1 = deactivate_relays [OF query_filter_demo(1), of api_ok]
  note d2 = deactivate_relays [OF query_filter_demo(1), of api_not_found]
  from d1 have f1: "fst (delete (demo_env api_ok) 1) = [?r]" by (rule conjunct1)
  from d2 have f2: "fst (delete (demo_env api_not_found) 1) = [?r]" by (rule conjunct1)
  from d1 [THEN conjunct2, rule_format, OF ok]
  have s1: "snd (delete (demo_env api_ok) 1) = Inr (success None)"
    by (simp add: dict_get_def)
  from d2 [THEN conjunct2, rule_format, OF nf]
  have s2: "snd (delete (demo_env api_not_found) 1) = Inr (error (JStr ''not found''))"
    by (simp add: dict_get_def)
  from f1 s1 f2 s2 show ?thesis
    by (simp add: prod_eq_iff str_int_small)
qed

section \<open>Create without a usable Stream\<close>

text \<open>
  Claim C10 as stated fails: filter 3 is accessible and has no Stream row, yet a Create
  with an empty body returns the reply \<^verbatim>\<open>"Missing pipeline parameter"\<close> and raises
  nothing, because the pipeline is checked before the Stream is read.
\<close>

theorem create_empty_pipeline_no_stream:
  "query_filter (demo_env api_ok) 3
     = Some \<lparr>Filter_id = 3, Filter_group_id = 10, Filter_stream_id = 300\<rparr>
   \<and> query_stream (demo_env api_ok) 300 = None
   \<and> post (demo_env api_ok) 3 [] = ([], Inr (error (JStr ''Missing pipeline parameter'')))"
  by (simp add: query_filter_demo query_stream_demo post_def dict_get_def)

text \<open>
  Claim C10, as amended. For an authorized Create with a non-empty pipeline: when the
  Filter has no Stream row, \<^verbatim>\<open>stream.altdata\<close> raises AttributeError; when the altdata
  is not a dict, the subscript raises TypeError; when it is a dict without
  \<^verbatim>\<open>collection\<close>, or with \<^verbatim>\<open>collection\<close> but without \<^verbatim>\<open>selector\<close>, the subscript
  raises KeyError. In each case the fault leaves the handler, no reply is written and no
  remote call is issued.
\<close>

theorem create_unguarded_stream:
  assumes "query_filter e filter_id = Some f"
    and "truthy (dict_get data ''pipeline'')"
  shows "(query_stream e (Filter_stream_id f) = None \<longrightarrow>
            post e filter_id data = ([], Inl AttributeError))
       \<and> (\<forall>s. query_stream e (Filter_stream_id f) = Some s
              \<and> (\<forall>d. Stream_altdata s \<noteq> JObj d) \<longrightarrow>
            post e filter_id data = ([], Inl TypeError))
       \<and> (\<forall>s d. query_stream e (Filter_stream_id f) = Some s
              \<and> Stream_altdata s = JObj d
              \<and> map_of d ''collection'' = None \<longrightarrow>
            post e filter_id data = ([], Inl (KeyError ''collection'')))
       \<and> (\<forall>s d catalog. query_stream e (Filter_stream_id f) = Some s
              \<and> Stream_altdata s = JObj d
              \<and> map_of d ''collection'' = Some catalog
              \<and> map_of d ''selector'' = None \<longrightarrow>
            post e filter_id data = ([], Inl (KeyError ''selector'')))"
proof (intro conjI allI impI)
  assume "query_stream e (Filter_stream_id f) = None"
  then show "post e filter_id data = ([], Inl AttributeError)"
    by (rule post_no_stream [OF assms(2) assms(1)])
next
  fix s
  assume h: "query_stream e (Filter_stream_id f) = Some s
              \<and> (\<forall>d. Stream_altdata s \<noteq> JObj d)"
  then have "subscript (Stream_altdata s) ''collection'' = Inl TypeError"
    by (simp add: subscript_not_obj)
  with h show "post e filter_id data = ([], Inl TypeError)"
    by (simp add: post_no_collection [OF assms(2) assms(1)])
next
  fix s d
  assume h: "query_stream e (Filter_stream_id f) = Some s
              \<and> Stream_altdata s = JObj d
              \<and> map_of d ''collection'' = None"
  then have "subscript (Stream_altdata s) ''collection'' = Inl (KeyError ''collection'')"
    by (simp add: subscript_obj)
  with h show "post e filter_id data = ([], Inl (KeyError ''collection''))"
    by (simp add: post_no_collection [OF assms(2) assms(1)])
next
  fix s d catalog
  assume h: "query_stream e (Filter_stream_id f) = Some s
              \<and> Stream_altdata s = JObj d
              \<and> map_of d ''collection'' = Some catalog
              \<and> map_of d ''selector'' = None"
  then have c: "subscript (Stream_altdata s) ''collection'' = Inr catalog"
    and p: "subscript (Stream_altdata s) ''selector'' = Inl (KeyError ''selector'')"
    by (simp_all add: subscript_obj)
  from h have s: "query_stream e (Filter_stream_id f) = Some s"
    by simp
  show "post e filter_id data = ([], Inl (KeyError ''selector''))"
    by (rule post_no_selector [OF assms(2) assms(1) s c p])
qed

text \<open>Filter 3 has no Stream row; the Stream of filter 4 has no \<^verbatim>\<open>selector\<close>.\<close>

theorem create_unguarded_stream_witness:
  "post (demo_env api_ok) 3 [(''pipeline'', JList [JObj [(''$match'', JObj [])]])]
     = ([], Inl AttributeError)
   \<and> post (demo_env api_ok) 4 [(''pipeline'', JList [JObj [(''$match'', JObj [])]])]
     = ([], Inl (KeyError ''selector''))"
proof -
  let ?data = "[(''pipeline'', JList [JObj [(''$match'', JObj [])]])]"
  let ?s = "\<lparr>Stream_id = 400, Stream_altdata = JObj [(''collection'', JStr ''ZUDS_alerts'')]\<rparr>"
  have t: "truthy (dict_get ?data ''pipeline'')"
    by (simp add: dict_get_def)
  have n: "query_stream (demo_env api_ok)
             (Filter_stream_id \<lparr>Filter_id = 3, Filter_group_id = 10, Filter_stream_id = 300\<rparr>)
           = None"
    by (simp add: query_stream_demo)
  have s: "query_stream (demo_env api_ok)
             (Filter_stream_id \<lparr>Filter_id = 4, Filter_group_id = 10, Filter_stream_id = 400\<rparr>)
           = Some ?s
         \<and> Stream_altdata ?s = JObj [(''collection'', JStr ''ZUDS_alerts'')]
         \<and> map_of [(''collection'', JStr ''ZUDS_alerts'')] ''collection''
             = Some (JStr ''ZUDS_alerts'')
         \<and> map_of [(''collection'', JStr ''ZUDS_alerts'')] ''selector'' = None"
    by (simp add: query_stream_demo)
  note c3 = create_unguarded_stream [OF query_filter_demo(3) t, of api_ok]
  note c4 = create_unguarded_stream [OF query_filter_demo(4) t, of api_ok]
  from c3 [THEN conjunct1, rule_format, OF n]
       c4 [THEN conjunct2, THEN conjunct2, THEN conjunct2, rule_format, OF s]
  show ?thesis by (rule conjI)
qed

end
